theory Spec2Isabelle
  imports Complex_Main "HOL-Library.Char_ord" "HOL-Library.List_Lexorder"
begin

section \<open>Go values\<close>

text \<open>
  The handlers run on AWS Lambda, whose Go runtimes are 64-bit: \<^verbatim>\<open>int\<close> is a
  two's-complement 64-bit integer, and \<^verbatim>\<open>-\<close>, \<^verbatim>\<open>*\<close> and \<^verbatim>\<open>+\<close> wrap around silently.
  Integers are modelled as \<^typ>\<open>int\<close> with the wrap-around written out.
\<close>

definition maxInt :: int where
  "maxInt = 9223372036854775807"

definition minInt :: int where
  "minInt = - 9223372036854775808"

definition wrap64 :: "int \<Rightarrow> int" where
  "wrap64 x = (x + 9223372036854775808) mod 18446744073709551616 - 9223372036854775808"

text \<open>
  A run of a handler either returns or panics. The panics the sources can raise:
  a slice expression out of range (\<^verbatim>\<open>movies[start:end]\<close>), a nil pointer dereference
  (\<^verbatim>\<open>*item["ID"].S\<close> on an attribute that is missing or not a string) and
  \<^verbatim>\<open>session.Must\<close> on a session that could not be built. \<open>FloatToIntUnspecified\<close> is not
  a panic: Go leaves the conversion of an infinite or NaN \<^verbatim>\<open>float64\<close> to \<^verbatim>\<open>int\<close>
  implementation-dependent, and the model stops there instead of inventing a value.
\<close>

datatype panic =
  SliceBoundsOutOfRange int int
  | NilPointerDereference
  | SessionPanic string
  | FloatToIntUnspecified

subsection \<open>strconv.Atoi\<close>

text \<open>
  \<^verbatim>\<open>strconv.Atoi\<close> accepts an optional sign followed by one or more decimal digits and
  nothing else, and reports a range error when the value does not fit 64 bits.
  \<open>None\<close> stands for a non-nil \<^verbatim>\<open>err\<close>.
\<close>

definition digit :: "char \<Rightarrow> nat option" where
  "digit c = (let n = (of_char c :: nat) in if 48 \<le> n \<and> n \<le> 57 then Some (n - 48) else None)"

fun digits_value :: "string \<Rightarrow> nat \<Rightarrow> nat option" where
  "digits_value [] acc = Some acc"
| "digits_value (c # cs) acc =
     (case digit c of None \<Rightarrow> None | Some d \<Rightarrow> digits_value cs (10 * acc + d))"

definition Atoi :: "string \<Rightarrow> int option" where
  "Atoi s =
     (let neg = (s \<noteq> [] \<and> hd s = CHR ''-'');
          ds = (if s \<noteq> [] \<and> (hd s = CHR ''-'' \<or> hd s = CHR ''+'') then tl s else s)
      in if ds = [] then None
         else case digits_value ds 0 of
                None \<Rightarrow> None
              | Some n \<Rightarrow>
                  (let v = (if neg then - int n else int n)
                   in if minInt \<le> v \<and> v \<le> maxInt then Some v else None))"

subsection \<open>Decimal rendering of an int, as encoding/json writes it\<close>

fun show_nat :: "nat \<Rightarrow> string" where
  "show_nat n =
     (if n < 10 then [''0123456789'' ! n]
      else show_nat (n div 10) @ [''0123456789'' ! (n mod 10)])"

declare show_nat.simps [simp del]

definition show_int :: "int \<Rightarrow> string" where
  "show_int i = (if i < 0 then CHR ''-'' # show_nat (nat (- i)) else show_nat (nat i))"

section \<open>The data model\<close>

record Movie =
  ID :: string
  Name :: string

record PaginatedMovie =
  Movie :: "Movie list"
  ActualPage :: int
  TotalPages :: int

record FeedbackResponse =
  Success :: bool
  Message :: string

text \<open>
  \<^verbatim>\<open>events.APIGatewayProxyRequest\<close> and \<^verbatim>\<open>events.APIGatewayProxyResponse\<close>, with the fields
  the handlers read and write. Go maps are partial functions; indexing a map of
  strings at a missing key gives the empty string (\<open>index\<close>). The request's body is
  the field \<open>RequestBody\<close>, the response's is \<open>Body\<close>.
\<close>

record APIGatewayProxyRequest =
  HTTPMethod :: string
  PathParameters :: "string \<rightharpoonup> string"
  QueryStringParameters :: "string \<rightharpoonup> string"
  RequestBody :: string

record APIGatewayProxyResponse =
  StatusCode :: int
  Headers :: "string \<rightharpoonup> string"
  Body :: string

definition index :: "(string \<rightharpoonup> string) \<Rightarrow> string \<Rightarrow> string" where
  "index m k = (case m k of None \<Rightarrow> [] | Some v \<Rightarrow> v)"

abbreviation StatusOK :: int where "StatusOK \<equiv> 200"
abbreviation StatusBadRequest :: int where "StatusBadRequest \<equiv> 400"
abbreviation StatusNotFound :: int where "StatusNotFound \<equiv> 404"
abbreviation StatusMethodNotAllowed :: int where "StatusMethodNotAllowed \<equiv> 405"
abbreviation StatusInternalServerError :: int where "StatusInternalServerError \<equiv> 500"

section \<open>The collaborators\<close>

subsection \<open>The process: environment, session, encoding/json\<close>

text \<open>
  What a handler takes from its process and from the standard library is a parameter
  of the model, so that every theorem holds for whatever these really do:
  \<^item> \<open>TABLE_NAME\<close>: \<^verbatim>\<open>os.Getenv("TABLE_NAME")\<close>;
  \<^item> \<open>NewSession\<close>: \<open>Some e\<close> when \<^verbatim>\<open>session.NewSessionWithOptions\<close> fails with \<open>e\<close>
    (then \<^verbatim>\<open>session.Must\<close> panics), \<open>None\<close> when the session is built;
  \<^item> \<open>Unmarshal\<close>: \<^verbatim>\<open>json.Unmarshal\<close> into a \<^verbatim>\<open>Movie\<close>, \<open>Inl e\<close> for an error whose
    \<^verbatim>\<open>Error()\<close> text is \<open>e\<close>;
  \<^item> \<open>quote\<close>: the JSON string literal \<^verbatim>\<open>json.Marshal\<close> writes for a Go string
    (quotes, escapes, replacement of invalid UTF-8).
\<close>

record process =
  TABLE_NAME :: string
  NewSession :: "string option"
  Unmarshal :: "string \<Rightarrow> string + Movie"
  quote :: "string \<Rightarrow> string"

subsection \<open>json.Marshal of the three structs\<close>

text \<open>
  \<^verbatim>\<open>json.Marshal\<close> writes the fields in declaration order under their \<^verbatim>\<open>json\<close> tags,
  with no white space. It cannot fail on structs of strings, booleans, ints and
  slices of them, so the \<^verbatim>\<open>err != nil\<close> branches after it are dead and the model has
  none. The slice marshalled by the list operation is never nil (it is a slice of
  \<^verbatim>\<open>make([]Movie, 0)\<close>), so an empty page is written \<^verbatim>\<open>[]\<close>.
\<close>

fun commas :: "string list \<Rightarrow> string" where
  "commas [] = []"
| "commas [x] = x"
| "commas (x # y # zs) = x @ CHR '','' # commas (y # zs)"

definition Marshal_bool :: "bool \<Rightarrow> string" where
  "Marshal_bool b = (if b then ''true'' else ''false'')"

definition Marshal_FeedbackResponse :: "process \<Rightarrow> FeedbackResponse \<Rightarrow> string" where
  \<open>Marshal_FeedbackResponse p res =
     ''{"success":'' @ Marshal_bool (Success res) @ '',"message":'' @ quote p (Message res) @ ''}''\<close>

definition Marshal_Movie :: "process \<Rightarrow> Movie \<Rightarrow> string" where
  \<open>Marshal_Movie p m = ''{"id":'' @ quote p (ID m) @ '',"name":'' @ quote p (Name m) @ ''}''\<close>

definition Marshal_PaginatedMovie :: "process \<Rightarrow> PaginatedMovie \<Rightarrow> string" where
  \<open>Marshal_PaginatedMovie p pm =
     ''{"data":['' @ commas (map (Marshal_Movie p) (Movie pm))
     @ ''],"actual_page":'' @ show_int (ActualPage pm)
     @ '',"total_pages":'' @ show_int (TotalPages pm) @ ''}''\<close>

subsection \<open>The DynamoDB client\<close>

text \<open>
  An item is a map from attribute names to attribute values; of an attribute value
  the handlers read only the string pointer \<^verbatim>\<open>S\<close> (\<open>None\<close> when nil). The client is a
  parameter: five operations over a state \<open>'s\<close> of the service, each returning
  \<open>Inl e\<close> for an error with text \<open>e\<close> or \<open>Inr\<close> its output. The arguments are the
  fields the handlers fill in: the table name, the key \<^verbatim>\<open>ID\<close>, the attribute
  \<^verbatim>\<open>Name\<close>.
\<close>

record AttributeValue =
  S :: "string option"

type_synonym item = "string \<rightharpoonup> AttributeValue"

record 's dynamodb =
  Scan :: "string \<Rightarrow> 's \<Rightarrow> (string + item list) \<times> 's"
  GetItem :: "string \<Rightarrow> string \<Rightarrow> 's \<Rightarrow> (string + item) \<times> 's"
  PutItem :: "string \<Rightarrow> string \<Rightarrow> string \<Rightarrow> 's \<Rightarrow> (string + unit) \<times> 's"
  UpdateItem :: "string \<Rightarrow> string \<Rightarrow> string \<Rightarrow> 's \<Rightarrow> (string + unit) \<times> 's"
  DeleteItem :: "string \<Rightarrow> string \<Rightarrow> 's \<Rightarrow> (string + unit) \<times> 's"

text \<open>
  The world a handler runs in: the service's state and the log of the calls made to
  the client, oldest first. Every call of a handler to the client goes through
  \<open>call\<close>, which appends to the log.
\<close>

datatype api_call =
  ScanCall string
  | GetItemCall string string
  | PutItemCall string string string
  | UpdateItemCall string string string
  | DeleteItemCall string string

record 's world =
  db :: 's
  calls :: "api_call list"

definition call :: "api_call \<Rightarrow> ('s \<Rightarrow> 'r \<times> 's) \<Rightarrow> 's world \<Rightarrow> 'r \<times> 's world" where
  "call c f w = (case f (db w) of (r, s') \<Rightarrow> (r, \<lparr>db = s', calls = calls w @ [c]\<rparr>))"

text \<open>\<^verbatim>\<open>*item[k].S\<close>: \<open>None\<close> is the nil pointer dereference.\<close>

definition deref_S :: "item \<Rightarrow> string \<Rightarrow> string option" where
  "deref_S it k = (case it k of None \<Rightarrow> None | Some av \<Rightarrow> S av)"

definition movie_of_item :: "item \<Rightarrow> Movie option" where
  "movie_of_item it =
     (case deref_S it ''ID'' of
        None \<Rightarrow> None
      | Some i \<Rightarrow> (case deref_S it ''Name'' of
                     None \<Rightarrow> None
                   | Some n \<Rightarrow> Some \<lparr>ID = i, Name = n\<rparr>))"

text \<open>The loop over \<^verbatim>\<open>res.Items\<close> that appends one \<^verbatim>\<open>Movie\<close> per item.\<close>

fun movies_of_items :: "item list \<Rightarrow> Movie list \<Rightarrow> Movie list option" where
  "movies_of_items [] movies = Some movies"
| "movies_of_items (it # items) movies =
     (case movie_of_item it of
        None \<Rightarrow> None
      | Some m \<Rightarrow> movies_of_items items (movies @ [m]))"

section \<open>The paginator\<close>

text \<open>
  \<^verbatim>\<open>paginateMovies\<close>, lines 391 to 409. \<open>slice_bounds\<close> is the computation of \<^verbatim>\<open>start\<close>
  and \<^verbatim>\<open>end\<close> up to the two clamps, \<open>go_slice\<close> the slice expression with its run-time
  check, \<open>total_pages\<close> the expression
  \<^verbatim>\<open>int(math.Ceil(float64(sliceLength) / float64(pageSize)))\<close>. The \<^verbatim>\<open>float64\<close> quotient is
  modelled by the exact quotient: for a length below \<open>2 ^ 53\<close> and a positive page
  size both conversions are exact and the rounded quotient has the ceiling of the
  exact one. A slice expression checks its upper bound against the capacity; here
  \<^verbatim>\<open>end\<close> has been clamped to the length, which the capacity is never below.
\<close>

definition slice_bounds :: "'a list \<Rightarrow> int \<Rightarrow> int \<Rightarrow> int \<times> int" where
  "slice_bounds movies pageNum pageSize =
     (let pageNum' = wrap64 (pageNum - 1);
          sliceLength = int (length movies);
          start = wrap64 (pageNum' * pageSize);
          end' = wrap64 (start + pageSize);
          start' = (if start > sliceLength then sliceLength else start);
          end'' = (if end' > sliceLength then sliceLength else end')
      in (start', end''))"

definition go_slice :: "'a list \<Rightarrow> int \<Rightarrow> int \<Rightarrow> panic + 'a list" where
  "go_slice xs lo hi =
     (if 0 \<le> lo \<and> lo \<le> hi \<and> hi \<le> int (length xs)
      then Inr (take (nat (hi - lo)) (drop (nat lo) xs))
      else Inl (SliceBoundsOutOfRange lo hi))"

definition total_pages :: "nat \<Rightarrow> int \<Rightarrow> int" where
  "total_pages sliceLength pageSize = \<lceil>real sliceLength / real_of_int pageSize\<rceil>"

definition paginateMovies :: "Movie list \<Rightarrow> int \<Rightarrow> int \<Rightarrow> panic + (Movie list \<times> int)" where
  "paginateMovies movies pageNum pageSize =
     (if pageSize = 0 then Inl FloatToIntUnspecified
      else let totalPages = total_pages (length movies) pageSize;
               (start, end') = slice_bounds movies pageNum pageSize
           in case go_slice movies start end' of
                Inl p \<Rightarrow> Inl p
              | Inr pagedMovies \<Rightarrow> Inr (pagedMovies, totalPages))"

text \<open>The results of the paginator for the page numbers 1 to the total, in order.\<close>

definition all_pages :: "Movie list \<Rightarrow> int \<Rightarrow> (panic + (Movie list \<times> int)) list" where
  "all_pages movies pageSize =
     map (\<lambda>pageNum. paginateMovies movies pageNum pageSize)
       [1..total_pages (length movies) pageSize]"

definition items_of :: "panic + (Movie list \<times> int) \<Rightarrow> Movie list" where
  "items_of r = (case r of Inl pn \<Rightarrow> [] | Inr (pagedMovies, totalPages) \<Rightarrow> pagedMovies)"

section \<open>The router\<close>

text \<open>
  The file of \<^verbatim>\<open>handleRequest\<close> (409 lines; it declares \<^verbatim>\<open>PaginatedMovie\<close> and
  \<^verbatim>\<open>FeedbackResponse\<close>). Every handler returns a nil \<^verbatim>\<open>error\<close>, so an outcome is the
  response or a panic, with the world after the run.
\<close>

type_synonym 's outcome = "(panic + APIGatewayProxyResponse) \<times> 's world"

definition json_headers :: "string \<rightharpoonup> string" where
  "json_headers = [''Content-Type'' \<mapsto> ''application/json'']"

definition jsonErrorResponse :: "process \<Rightarrow> string \<Rightarrow> string" where
  "jsonErrorResponse p errMessage =
     Marshal_FeedbackResponse p \<lparr>Success = False, Message = errMessage\<rparr>"

definition jsonSuccessResponse :: "process \<Rightarrow> string \<Rightarrow> string" where
  "jsonSuccessResponse p successMessage =
     Marshal_FeedbackResponse p \<lparr>Success = True, Message = successMessage\<rparr>"

text \<open>
  \<^verbatim>\<open>sort.Slice\<close> with \<^verbatim>\<open>movies[i].ID < movies[j].ID\<close> orders by the bytes of the key,
  which is the lexicographic order on \<^typ>\<open>string\<close>. It is not stable; \<open>sort_key\<close>
  is, and the two agree on keys that are pairwise distinct, as the keys of one
  table are.
\<close>

text \<open>Lines 97 to 101: the \<^verbatim>\<open>page\<close> query parameter, \<^verbatim>\<open>"1"\<close> when it is empty or missing.\<close>

definition page_param :: "APIGatewayProxyRequest \<Rightarrow> string" where
  "page_param req =
     (let page = index (QueryStringParameters req) ''page''
      in if page = [] then ''1'' else page)"

definition findAllMovies ::
  "process \<Rightarrow> 's dynamodb \<Rightarrow> APIGatewayProxyRequest \<Rightarrow> 's world \<Rightarrow> 's outcome" where
  "findAllMovies p svc req w =
     (case NewSession p of
        Some e \<Rightarrow> (Inl (SessionPanic e), w)
      | None \<Rightarrow>
          (case call (ScanCall (TABLE_NAME p)) (Scan svc (TABLE_NAME p)) w of
             (Inl err, w') \<Rightarrow>
               (Inr \<lparr>StatusCode = StatusInternalServerError, Headers = json_headers,
                     Body = jsonErrorResponse p ''Error while scanning DynamoDB''\<rparr>, w')
           | (Inr items, w') \<Rightarrow>
               (case movies_of_items items [] of
                  None \<Rightarrow> (Inl NilPointerDereference, w')
                | Some unsorted \<Rightarrow>
                    (let movies = sort_key ID unsorted;
                         page = page_param req
                     in case Atoi page of
                          None \<Rightarrow>
                            (Inr \<lparr>StatusCode = StatusInternalServerError,
                                  Headers = json_headers,
                                  Body = jsonErrorResponse p
                                    ''Only numbers accepted in page query string''\<rparr>, w')
                        | Some pageNum \<Rightarrow>
                            (case paginateMovies movies pageNum 3 of
                               Inl pn \<Rightarrow> (Inl pn, w')
                             | Inr (paginated, totalPages) \<Rightarrow>
                                 if pageNum > totalPages
                                 then (Inr \<lparr>StatusCode = StatusBadRequest,
                                            Headers = json_headers,
                                            Body = jsonErrorResponse p
                                              ''The requested page exceeds the total of pages''\<rparr>, w')
                                 else (Inr \<lparr>StatusCode = StatusOK, Headers = json_headers,
                                            Body = Marshal_PaginatedMovie p
                                              \<lparr>Movie = paginated, ActualPage = pageNum,
                                               TotalPages = totalPages\<rparr>\<rparr>, w'))))))"

definition findOneMovie ::
  "process \<Rightarrow> 's dynamodb \<Rightarrow> APIGatewayProxyRequest \<Rightarrow> 's world \<Rightarrow> 's outcome" where
  "findOneMovie p svc req w =
     (let id' = index (PathParameters req) ''id''
      in case NewSession p of
           Some e \<Rightarrow> (Inl (SessionPanic e), w)
         | None \<Rightarrow>
             (case call (GetItemCall (TABLE_NAME p) id') (GetItem svc (TABLE_NAME p) id') w of
                (Inl err, w') \<Rightarrow>
                  (Inr \<lparr>StatusCode = StatusInternalServerError, Headers = json_headers,
                        Body = jsonErrorResponse p ''Error while getting item DynamoDB''\<rparr>, w')
              | (Inr it, w') \<Rightarrow>
                  if it = Map.empty
                  then (Inr \<lparr>StatusCode = StatusNotFound, Headers = json_headers,
                             Body = jsonErrorResponse p
                               ''Movie not found with the ID provided''\<rparr>, w')
                  else (case movie_of_item it of
                          None \<Rightarrow> (Inl NilPointerDereference, w')
                        | Some movie \<Rightarrow>
                            (Inr \<lparr>StatusCode = StatusOK, Headers = json_headers,
                                  Body = Marshal_Movie p movie\<rparr>, w'))))"

definition insertMovie ::
  "process \<Rightarrow> 's dynamodb \<Rightarrow> APIGatewayProxyRequest \<Rightarrow> 's world \<Rightarrow> 's outcome" where
  "insertMovie p svc req w =
     (case Unmarshal p (RequestBody req) of
        Inl err \<Rightarrow>
          (Inr \<lparr>StatusCode = StatusBadRequest, Headers = json_headers,
                Body = jsonErrorResponse p ''Invalid payload''\<rparr>, w)
      | Inr movie \<Rightarrow>
          (case NewSession p of
             Some e \<Rightarrow> (Inl (SessionPanic e), w)
           | None \<Rightarrow>
               (case call (PutItemCall (TABLE_NAME p) (ID movie) (Name movie))
                       (PutItem svc (TABLE_NAME p) (ID movie) (Name movie)) w of
                  (Inl err, w') \<Rightarrow>
                    (Inr \<lparr>StatusCode = StatusInternalServerError, Headers = json_headers,
                          Body = jsonErrorResponse p
                            ''Error inserting movie into DynamoDB''\<rparr>, w')
                | (Inr u, w') \<Rightarrow>
                    (Inr \<lparr>StatusCode = 200, Headers = json_headers,
                          Body = jsonSuccessResponse p ''Movie inserted successfully''\<rparr>, w'))))"

definition updateMovie ::
  "process \<Rightarrow> 's dynamodb \<Rightarrow> APIGatewayProxyRequest \<Rightarrow> 's world \<Rightarrow> 's outcome" where
  "updateMovie p svc req w =
     (case Unmarshal p (RequestBody req) of
        Inl err \<Rightarrow>
          (Inr \<lparr>StatusCode = StatusBadRequest, Headers = json_headers,
                Body = jsonErrorResponse p ''Invalid payload''\<rparr>, w)
      | Inr movie \<Rightarrow>
          (case NewSession p of
             Some e \<Rightarrow> (Inl (SessionPanic e), w)
           | None \<Rightarrow>
               (case call (UpdateItemCall (TABLE_NAME p) (ID movie) (Name movie))
                       (UpdateItem svc (TABLE_NAME p) (ID movie) (Name movie)) w of
                  (Inl err, w') \<Rightarrow>
                    (Inr \<lparr>StatusCode = StatusInternalServerError, Headers = json_headers,
                          Body = jsonErrorResponse p
                            ''Error updating movie from DynamoDB''\<rparr>, w')
                | (Inr u, w') \<Rightarrow>
                    (Inr \<lparr>StatusCode = 200, Headers = json_headers,
                          Body = jsonSuccessResponse p ''Movie updated successfully''\<rparr>, w'))))"

definition deleteMovie ::
  "process \<Rightarrow> 's dynamodb \<Rightarrow> APIGatewayProxyRequest \<Rightarrow> 's world \<Rightarrow> 's outcome" where
  "deleteMovie p svc req w =
     (case Unmarshal p (RequestBody req) of
        Inl err \<Rightarrow>
          (Inr \<lparr>StatusCode = StatusBadRequest, Headers = json_headers,
                Body = jsonErrorResponse p ''Invalid payload''\<rparr>, w)
      | Inr movie \<Rightarrow>
          (case NewSession p of
             Some e \<Rightarrow> (Inl (SessionPanic e), w)
           | None \<Rightarrow>
               (case call (DeleteItemCall (TABLE_NAME p) (ID movie))
                       (DeleteItem svc (TABLE_NAME p) (ID movie)) w of
                  (Inl err, w') \<Rightarrow>
                    (Inr \<lparr>StatusCode = StatusInternalServerError, Headers = json_headers,
                          Body = jsonErrorResponse p
                            ''Error deleting movie into DynamoDB''\<rparr>, w')
                | (Inr u, w') \<Rightarrow>
                    (Inr \<lparr>StatusCode = 200, Headers = json_headers,
                          Body = jsonSuccessResponse p ''Movie deleted successfully''\<rparr>, w'))))"

definition handleRequest ::
  "process \<Rightarrow> 's dynamodb \<Rightarrow> APIGatewayProxyRequest \<Rightarrow> 's world \<Rightarrow> 's outcome" where
  "handleRequest p svc req w =
     (if HTTPMethod req = ''GET'' then
        (if index (PathParameters req) ''id'' = [] then findAllMovies p svc req w
         else findOneMovie p svc req w)
      else if HTTPMethod req = ''POST'' then insertMovie p svc req w
      else if HTTPMethod req = ''PUT'' then updateMovie p svc req w
      else if HTTPMethod req = ''DELETE'' then deleteMovie p svc req w
      else (Inr \<lparr>StatusCode = StatusMethodNotAllowed, Headers = json_headers,
                 Body = jsonErrorResponse p ''Unsupported HTTP method''\<rparr>, w))"

section \<open>The single-operation handlers\<close>

text \<open>
  The repository also holds one Lambda entry point per operation: \<^verbatim>\<open>update\<close>,
  \<^verbatim>\<open>findOne\<close>, \<^verbatim>\<open>delete\<close> and \<^verbatim>\<open>insert\<close>. Their error responses set no headers (a nil
  map) and carry plain text; \<^verbatim>\<open>findOne\<close> reads the attributes of the item without
  looking at its size. \<^verbatim>\<open>insert\<close> is \<open>insert'\<close> here, \<open>insert\<close> being the insertion
  into a set.
\<close>

definition update ::
  "process \<Rightarrow> 's dynamodb \<Rightarrow> APIGatewayProxyRequest \<Rightarrow> 's world \<Rightarrow> 's outcome" where
  "update p svc req w =
     (case Unmarshal p (RequestBody req) of
        Inl err \<Rightarrow>
          (Inr \<lparr>StatusCode = StatusBadRequest, Headers = Map.empty,
                Body = ''Invalid payload: '' @ err\<rparr>, w)
      | Inr movie \<Rightarrow>
          (case NewSession p of
             Some e \<Rightarrow> (Inl (SessionPanic e), w)
           | None \<Rightarrow>
               (case call (UpdateItemCall (TABLE_NAME p) (ID movie) (Name movie))
                       (UpdateItem svc (TABLE_NAME p) (ID movie) (Name movie)) w of
                  (Inl err, w') \<Rightarrow>
                    (Inr \<lparr>StatusCode = StatusInternalServerError, Headers = Map.empty,
                          Body = ''Error updating movie from DynamoDB: '' @ err\<rparr>, w')
                | (Inr u, w') \<Rightarrow>
                    (Inr \<lparr>StatusCode = 200, Headers = json_headers,
                          Body = ''Movie updated successfully''\<rparr>, w'))))"

definition findOne ::
  "process \<Rightarrow> 's dynamodb \<Rightarrow> APIGatewayProxyRequest \<Rightarrow> 's world \<Rightarrow> 's outcome" where
  "findOne p svc req w =
     (let id' = index (PathParameters req) ''id''
      in case NewSession p of
           Some e \<Rightarrow> (Inl (SessionPanic e), w)
         | None \<Rightarrow>
             (case call (GetItemCall (TABLE_NAME p) id') (GetItem svc (TABLE_NAME p) id') w of
                (Inl err, w') \<Rightarrow>
                  (Inr \<lparr>StatusCode = StatusInternalServerError, Headers = Map.empty,
                        Body = ''Error while getting item DynamoDB''\<rparr>, w')
              | (Inr it, w') \<Rightarrow>
                  (case movie_of_item it of
                     None \<Rightarrow> (Inl NilPointerDereference, w')
                   | Some movie \<Rightarrow>
                       (Inr \<lparr>StatusCode = StatusOK, Headers = json_headers,
                             Body = Marshal_Movie p movie\<rparr>, w'))))"

definition delete ::
  "process \<Rightarrow> 's dynamodb \<Rightarrow> APIGatewayProxyRequest \<Rightarrow> 's world \<Rightarrow> 's outcome" where
  "delete p svc req w =
     (case Unmarshal p (RequestBody req) of
        Inl err \<Rightarrow>
          (Inr \<lparr>StatusCode = StatusBadRequest, Headers = Map.empty,
                Body = ''Invalid payload: '' @ err\<rparr>, w)
      | Inr movie \<Rightarrow>
          (case NewSession p of
             Some e \<Rightarrow> (Inl (SessionPanic e), w)
           | None \<Rightarrow>
               (case call (DeleteItemCall (TABLE_NAME p) (ID movie))
                       (DeleteItem svc (TABLE_NAME p) (ID movie)) w of
                  (Inl err, w') \<Rightarrow>
                    (Inr \<lparr>StatusCode = StatusInternalServerError, Headers = Map.empty,
                          Body = ''Error deleting movie into DynamoDB: '' @ err\<rparr>, w')
                | (Inr u, w') \<Rightarrow>
                    (Inr \<lparr>StatusCode = 200, Headers = json_headers,
                          Body = ''Movie deleted successfully''\<rparr>, w'))))"

definition insert' ::
  "process \<Rightarrow> 's dynamodb \<Rightarrow> APIGatewayProxyRequest \<Rightarrow> 's world \<Rightarrow> 's outcome" where
  "insert' p svc req w =
     (case Unmarshal p (RequestBody req) of
        Inl err \<Rightarrow>
          (Inr \<lparr>StatusCode = StatusBadRequest, Headers = Map.empty,
                Body = ''Invalid payload: '' @ err\<rparr>, w)
      | Inr movie \<Rightarrow>
          (case NewSession p of
             Some e \<Rightarrow> (Inl (SessionPanic e), w)
           | None \<Rightarrow>
               (case call (PutItemCall (TABLE_NAME p) (ID movie) (Name movie))
                       (PutItem svc (TABLE_NAME p) (ID movie) (Name movie)) w of
                  (Inl err, w') \<Rightarrow>
                    (Inr \<lparr>StatusCode = StatusInternalServerError, Headers = Map.empty,
                          Body = ''Error inserting movie into DynamoDB: '' @ err\<rparr>, w')
                | (Inr u, w') \<Rightarrow>
                    (Inr \<lparr>StatusCode = 200, Headers = json_headers,
                          Body = ''Movie inserted successfully''\<rparr>, w'))))"

section \<open>A table in memory, for examples\<close>

text \<open>
  A client to run the handlers on: the table is a list of items in scan order, and
  \<open>failure\<close>, when set, is the error every call returns. \<^verbatim>\<open>PutItem\<close> replaces the item
  of the key or adds it, \<^verbatim>\<open>UpdateItem\<close> sets \<^verbatim>\<open>Name\<close> on the item of the key or adds
  an item of the key and the name, \<^verbatim>\<open>DeleteItem\<close> removes the item of the key if
  there is one, \<^verbatim>\<open>GetItem\<close> returns the item of the key or an empty item.
\<close>

record table =
  rows :: "item list"
  failure :: "string option"

definition has_key :: "string \<Rightarrow> item \<Rightarrow> bool" where
  "has_key k it = (deref_S it ''ID'' = Some k)"

definition row :: "string \<Rightarrow> string \<Rightarrow> item" where
  "row k n = [''ID'' \<mapsto> \<lparr>S = Some k\<rparr>, ''Name'' \<mapsto> \<lparr>S = Some n\<rparr>]"

definition failing :: "table \<Rightarrow> 'r \<Rightarrow> (string + 'r) \<times> table" where
  "failing t r = (case failure t of Some e \<Rightarrow> (Inl e, t) | None \<Rightarrow> (Inr r, t))"

definition table_Scan :: "string \<Rightarrow> table \<Rightarrow> (string + item list) \<times> table" where
  "table_Scan tn t = failing t (rows t)"

definition table_GetItem :: "string \<Rightarrow> string \<Rightarrow> table \<Rightarrow> (string + item) \<times> table" where
  "table_GetItem tn k t =
     failing t (case filter (has_key k) (rows t) of [] \<Rightarrow> Map.empty | it # rest \<Rightarrow> it)"

definition table_PutItem ::
  "string \<Rightarrow> string \<Rightarrow> string \<Rightarrow> table \<Rightarrow> (string + unit) \<times> table" where
  "table_PutItem tn k n t =
     (case failure t of
        Some e \<Rightarrow> (Inl e, t)
      | None \<Rightarrow> (Inr (), t\<lparr>rows := filter (\<lambda>it. \<not> has_key k it) (rows t) @ [row k n]\<rparr>))"

definition table_UpdateItem ::
  "string \<Rightarrow> string \<Rightarrow> string \<Rightarrow> table \<Rightarrow> (string + unit) \<times> table" where
  "table_UpdateItem tn k n t =
     (case failure t of
        Some e \<Rightarrow> (Inl e, t)
      | None \<Rightarrow>
          (Inr (),
           t\<lparr>rows :=
               (if filter (has_key k) (rows t) = [] then rows t @ [row k n]
                else map (\<lambda>it. if has_key k it then it(''Name'' \<mapsto> \<lparr>S = Some n\<rparr>) else it)
                       (rows t))\<rparr>))"

definition table_DeleteItem :: "string \<Rightarrow> string \<Rightarrow> table \<Rightarrow> (string + unit) \<times> table" where
  "table_DeleteItem tn k t =
     (case failure t of
        Some e \<Rightarrow> (Inl e, t)
      | None \<Rightarrow> (Inr (), t\<lparr>rows := filter (\<lambda>it. \<not> has_key k it) (rows t)\<rparr>))"

definition table_client :: "table dynamodb" where
  "table_client =
     \<lparr>Scan = table_Scan, GetItem = table_GetItem, PutItem = table_PutItem,
      UpdateItem = table_UpdateItem, DeleteItem = table_DeleteItem\<rparr>"

text \<open>
  A process for the examples. Its decoder knows two bodies, on which it answers as
  \<^verbatim>\<open>json.Unmarshal\<close> does: the movie \<^verbatim>\<open>m1\<close>, and \<^verbatim>\<open>not-json\<close>; its string encoder writes
  the string between quotes, as \<^verbatim>\<open>json.Marshal\<close> does for letters, digits and spaces.
  Neither is used on anything else.
\<close>

definition example_Unmarshal :: "string \<Rightarrow> string + Movie" where
  \<open>example_Unmarshal body =
     (if body = ''{"id":"m1","name":"Alpha"}'' then Inr \<lparr>ID = ''m1'', Name = ''Alpha''\<rparr>
      else Inl ''invalid character 'o' in literal null (expecting 'u')'')\<close>

definition example_quote :: "string \<Rightarrow> string" where
  \<open>example_quote s = ''"'' @ s @ ''"''\<close>

definition example_process :: process where
  "example_process =
     \<lparr>TABLE_NAME = ''movies'', NewSession = None, Unmarshal = example_Unmarshal,
      quote = example_quote\<rparr>"

definition fresh :: "item list \<Rightarrow> table world" where
  "fresh its = \<lparr>db = \<lparr>rows = its, failure = None\<rparr>, calls = []\<rparr>"

definition broken :: "string \<Rightarrow> table world" where
  "broken e = \<lparr>db = \<lparr>rows = [], failure = Some e\<rparr>, calls = []\<rparr>"

definition get :: "(string \<rightharpoonup> string) \<Rightarrow> (string \<rightharpoonup> string) \<Rightarrow> APIGatewayProxyRequest" where
  "get path query =
     \<lparr>HTTPMethod = ''GET'', PathParameters = path, QueryStringParameters = query,
      RequestBody = []\<rparr>"

definition send :: "string \<Rightarrow> string \<Rightarrow> APIGatewayProxyRequest" where
  "send method body =
     \<lparr>HTTPMethod = method, PathParameters = Map.empty, QueryStringParameters = Map.empty,
      RequestBody = body\<rparr>"

section \<open>The paginator's slices\<close>

text \<open>An operation whose operands and result fit 64 bits does not wrap.\<close>

lemma wrap64_id: "minInt \<le> x \<Longrightarrow> x \<le> maxInt \<Longrightarrow> wrap64 x = x"
  by (simp add: wrap64_def minInt_def maxInt_def)

lemma total_pages_3: "total_pages n 3 = int ((n + 2) div 3)"
proof -
  have "real n / real_of_int 3 = of_int (int n) / of_int 3" by simp
  then have "total_pages n 3 = - (- int n div 3)"
    unfolding total_pages_def by (simp only: ceiling_divide_eq_div)
  then show ?thesis by linarith
qed

lemma slice_bounds_in_range:
  assumes "1 \<le> pageNum" and "1 \<le> pageSize" and "pageNum * pageSize \<le> maxInt"
  shows "slice_bounds movies pageNum pageSize =
           (min ((pageNum - 1) * pageSize) (int (length movies)),
            min (pageNum * pageSize) (int (length movies)))"
proof -
  have split: "(pageNum - 1) * pageSize = pageNum * pageSize - pageSize"
    by (simp add: algebra_simps)
  have nonneg: "0 \<le> (pageNum - 1) * pageSize"
    using assms by simp
  have "pageNum \<le> pageNum * pageSize"
    using mult_left_mono [of 1 pageSize pageNum] assms by simp
  then have le: "pageNum \<le> maxInt"
    using assms by linarith
  have p1: "wrap64 (pageNum - 1) = pageNum - 1"
  proof (rule wrap64_id)
    show "minInt \<le> pageNum - 1" using assms by (simp add: minInt_def)
    show "pageNum - 1 \<le> maxInt" using le by simp
  qed
  have p2: "wrap64 ((pageNum - 1) * pageSize) = (pageNum - 1) * pageSize"
  proof (rule wrap64_id)
    show "minInt \<le> (pageNum - 1) * pageSize" using nonneg unfolding minInt_def by linarith
    show "(pageNum - 1) * pageSize \<le> maxInt" using assms split by linarith
  qed
  have p3: "wrap64 ((pageNum - 1) * pageSize + pageSize) = pageNum * pageSize"
  proof -
    have "minInt \<le> pageNum * pageSize"
      using nonneg split assms unfolding minInt_def by linarith
    then show ?thesis using assms split by (simp add: wrap64_id)
  qed
  show ?thesis
    by (simp add: slice_bounds_def Let_def p1 p2 p3 min_def)
qed

lemma concat_chunks:
  "concat (map (\<lambda>i. take k (drop (i * k) xs)) [0..<n]) = take (n * k) xs"
proof (induction n)
  case 0
  then show ?case by simp
next
  case (Suc n)
  have "take (Suc n * k) xs = take (n * k + k) xs" by (simp add: add.commute)
  also have "\<dots> = take (n * k) xs @ take k (drop (n * k) xs)" by (rule take_add)
  finally show ?case using Suc by simp
qed

lemma upto_as_upt: "[1..int n] = map (\<lambda>i. int i + 1) [0..<n]"
proof (induction n)
  case 0
  then show ?case by simp
next
  case (Suc n)
  have "[1..int (Suc n)] = [1..int n] @ [int n + 1]"
    by (simp add: upto_rec2 add.commute)
  then show ?case using Suc by simp
qed


lemma take_clipped: "take (min (a + k) (length xs) - a) (drop a xs) = take k (drop a xs)"
  by (cases "a + k \<le> length xs") (simp_all add: min_def)

lemma go_slice_nat:
  assumes "a \<le> b" and "b \<le> length xs"
  shows "go_slice xs (int a) (int b) = Inr (take (b - a) (drop a xs))"
proof -
  have "int b - int a = int (b - a)" using assms(1) by simp
  then have "nat (int b - int a) = b - a" by (simp only: nat_int)
  then show ?thesis using assms by (simp add: go_slice_def)
qed

lemma paginateMovies_in_range:
  assumes "1 \<le> pageNum" and "pageNum * 3 \<le> maxInt"
  shows "paginateMovies movies pageNum 3 =
           Inr (drop (nat (pageNum - 1) * 3) (take (nat pageNum * 3) movies),
                total_pages (length movies) 3)"
proof -
  define k where "k = nat (pageNum - 1)"
  define n where "n = length movies"
  have pn: "pageNum = int k + 1" using assms(1) by (simp add: k_def)
  have np: "nat pageNum = Suc k" using pn by simp
  have "slice_bounds movies pageNum 3 =
      (min (int (k * 3)) (int n), min (int (k * 3 + 3)) (int n))"
    using slice_bounds_in_range [of pageNum 3 movies] assms by (simp add: pn n_def algebra_simps)
  then have bounds: "slice_bounds movies pageNum 3 = (int (min (k * 3) n), int (min (k * 3 + 3) n))"
    by (simp add: min_def)
  have "go_slice movies (int (min (k * 3) n)) (int (min (k * 3 + 3) n)) =
        Inr (take (min (k * 3 + 3) n - min (k * 3) n) (drop (min (k * 3) n) movies))"
    by (rule go_slice_nat) (simp_all add: n_def)
  also have "take (min (k * 3 + 3) n - min (k * 3) n) (drop (min (k * 3) n) movies) =
             take 3 (drop (k * 3) movies)"
  proof (cases "k * 3 \<le> n")
    case True
    then have "min (k * 3) n = k * 3" by simp
    then show ?thesis using take_clipped [of "k * 3" 3 movies] by (simp add: n_def)
  next
    case False
    then show ?thesis by (simp add: n_def)
  qed
  also have "\<dots> = drop (k * 3) (take (Suc k * 3) movies)"
    by (simp add: drop_take)
  finally show ?thesis
    by (simp add: paginateMovies_def bounds np flip: k_def)
qed

lemma all_pages_concat:
  assumes "length movies < 2 ^ 53"
  shows "all_pages movies 3 =
           map (\<lambda>p. Inr (drop (nat (p - 1) * 3) (take (nat p * 3) movies),
                         total_pages (length movies) 3))
             [1..total_pages (length movies) 3]"
    and "concat (map items_of (all_pages movies 3)) = movies"
proof -
  let ?t = "(length movies + 2) div 3"
  have small: "int (length movies) < 9007199254740992" using assms by simp 
  show eq: "all_pages movies 3 =
           map (\<lambda>p. Inr (drop (nat (p - 1) * 3) (take (nat p * 3) movies),
                         total_pages (length movies) 3))
             [1..total_pages (length movies) 3]"
    unfolding all_pages_def
  proof (rule map_cong [OF refl])
    fix p assume "p \<in> set [1..total_pages (length movies) 3]"
    then have "1 \<le> p" and "p \<le> int ?t" by (simp_all add: total_pages_3)
    then have "p * 3 \<le> maxInt" using small by (simp add: maxInt_def)
    with \<open>1 \<le> p\<close> show "paginateMovies movies p 3 =
        Inr (drop (nat (p - 1) * 3) (take (nat p * 3) movies), total_pages (length movies) 3)"
      by (rule paginateMovies_in_range)
  qed
  have "concat (map items_of (all_pages movies 3)) =
        concat (map (\<lambda>i. take 3 (drop (i * 3) movies)) [0..<?t])"
    by (simp add: eq total_pages_3 upto_as_upt items_of_def comp_def drop_take nat_add_distrib)
  also have "\<dots> = take (?t * 3) movies" by (rule concat_chunks)
  also have "\<dots> = movies" by simp
  finally show "concat (map items_of (all_pages movies 3)) = movies" .
qed

text \<open>
  C5. With page size 3, on a collection of seven movies the paginator returns the
  first three and 3 total pages for page 1, the last one for page 3 and an empty
  slice for page 4; on the empty collection, page 1 is an empty slice and the total
  is 0.
\<close>

theorem paginateMovies_seven_and_none:
  "paginateMovies [a, b, c, d, e, f, g] 1 3 = Inr ([a, b, c], 3)
   \<and> paginateMovies [a, b, c, d, e, f, g] 3 3 = Inr ([g], 3)
   \<and> paginateMovies [a, b, c, d, e, f, g] 4 3 = Inr ([], 3)
   \<and> paginateMovies [] 1 3 = Inr ([], 0)"
  by (simp add: paginateMovies_def slice_bounds_def go_slice_def total_pages_def wrap64_def)

text \<open>
  C1. With page size 3 the total is the ceiling of a third of the size of the
  collection; the page of number \<open>p\<close>, for \<open>p\<close> from 1 to the total, is the part of
  the collection from offset \<open>(p - 1) * 3\<close> to \<open>p * 3\<close>, clipped to its end; and
  these pages, concatenated in order, are the collection. Neither the order of
  the collection nor its being non-empty is needed. The bound on the length is
  the one under which \<^verbatim>\<open>float64\<close> holds the length exactly; no slice of movies
  reaches it.
\<close>

theorem paginateMovies_pages_cover:
  assumes "length movies < 2 ^ 53"
  shows "total_pages (length movies) 3 = \<lceil>real (length movies) / 3\<rceil>
         \<and> all_pages movies 3 =
             map (\<lambda>p. Inr (drop (nat (p - 1) * 3) (take (nat p * 3) movies),
                           \<lceil>real (length movies) / 3\<rceil>))
               [1..\<lceil>real (length movies) / 3\<rceil>]
         \<and> concat (map items_of (all_pages movies 3)) = movies"
proof -
  have "total_pages (length movies) 3 = \<lceil>real (length movies) / 3\<rceil>"
    by (simp add: total_pages_def)
  then show ?thesis
    using all_pages_concat [OF assms] by simp
qed

theorem paginateMovies_pages_cover_witness:
  "length [\<lparr>ID = ''m1'', Name = ''Alpha''\<rparr>, \<lparr>ID = ''m2'', Name = ''Bravo''\<rparr>,
           \<lparr>ID = ''m3'', Name = ''Charlie''\<rparr>, \<lparr>ID = ''m4'', Name = ''Delta''\<rparr>]
     < (2 :: nat) ^ 53
   \<and> all_pages [\<lparr>ID = ''m1'', Name = ''Alpha''\<rparr>, \<lparr>ID = ''m2'', Name = ''Bravo''\<rparr>,
                \<lparr>ID = ''m3'', Name = ''Charlie''\<rparr>, \<lparr>ID = ''m4'', Name = ''Delta''\<rparr>] 3
     = [Inr ([\<lparr>ID = ''m1'', Name = ''Alpha''\<rparr>, \<lparr>ID = ''m2'', Name = ''Bravo''\<rparr>,
              \<lparr>ID = ''m3'', Name = ''Charlie''\<rparr>], 2),
        Inr ([\<lparr>ID = ''m4'', Name = ''Delta''\<rparr>], 2)]
   \<and> concat (map items_of
        (all_pages [\<lparr>ID = ''m1'', Name = ''Alpha''\<rparr>, \<lparr>ID = ''m2'', Name = ''Bravo''\<rparr>,
                    \<lparr>ID = ''m3'', Name = ''Charlie''\<rparr>, \<lparr>ID = ''m4'', Name = ''Delta''\<rparr>] 3))
     = [\<lparr>ID = ''m1'', Name = ''Alpha''\<rparr>, \<lparr>ID = ''m2'', Name = ''Bravo''\<rparr>,
        \<lparr>ID = ''m3'', Name = ''Charlie''\<rparr>, \<lparr>ID = ''m4'', Name = ''Delta''\<rparr>]"
proof -
  have small: "length [\<lparr>ID = ''m1'', Name = ''Alpha''\<rparr>, \<lparr>ID = ''m2'', Name = ''Bravo''\<rparr>,
      \<lparr>ID = ''m3'', Name = ''Charlie''\<rparr>, \<lparr>ID = ''m4'', Name = ''Delta''\<rparr>] < (2 :: nat) ^ 53"
    by simp
  have two: "\<lceil>(4 :: real) / 3\<rceil> = 2" by simp
  show ?thesis
    using small paginateMovies_pages_cover [OF small]
    by (simp add: two upto_rec1 items_of_def)
qed

section \<open>Running the examples\<close>

text \<open>A number below ten is written as its digit.\<close>

lemma show_nat_digit: "n < 10 \<Longrightarrow> show_nat n = [''0123456789'' ! n]"
  by (simp add: show_nat.simps)

lemmas example_defs =
  example_process_def table_client_def fresh_def broken_def get_def send_def
  table_Scan_def table_GetItem_def table_PutItem_def table_UpdateItem_def
  table_DeleteItem_def failing_def has_key_def row_def deref_S_def movie_of_item_def
  index_def page_param_def call_def example_Unmarshal_def example_quote_def
  json_headers_def jsonErrorResponse_def jsonSuccessResponse_def
  Marshal_FeedbackResponse_def Marshal_bool_def Marshal_Movie_def
  Marshal_PaginatedMovie_def show_int_def show_nat_digit Let_def

lemmas paginate_defs =
  paginateMovies_def slice_bounds_def go_slice_def total_pages_3 wrap64_def

lemmas atoi_defs = Atoi_def digit_def minInt_def maxInt_def

section \<open>The bounds of the slice expression\<close>

text \<open>
  A page number that is zero or negative, with a product that does not wrap, gives
  a negative \<^verbatim>\<open>start\<close>, which neither clamp touches.
\<close>

lemma slice_bounds_nonpositive_page:
  assumes "pageNum \<le> 0" and "1 \<le> pageSize" and "minInt \<le> (pageNum - 1) * pageSize"
  shows "slice_bounds movies pageNum pageSize = ((pageNum - 1) * pageSize, pageNum * pageSize)"
proof -
  have split: "(pageNum - 1) * pageSize = pageNum * pageSize - pageSize"
    by (simp add: algebra_simps)
  have "(pageNum - 1) * pageSize \<le> (pageNum - 1) * 1"
    using assms by (intro mult_left_mono_neg) auto
  then have low: "(pageNum - 1) * pageSize \<le> pageNum - 1" by simp
  have "pageNum * pageSize \<le> 0 * pageSize"
    using assms by (intro mult_right_mono) auto
  then have npos: "pageNum * pageSize \<le> 0" by simp
  have p1: "wrap64 (pageNum - 1) = pageNum - 1"
  proof (rule wrap64_id)
    show "minInt \<le> pageNum - 1" using low assms(3) by linarith
    show "pageNum - 1 \<le> maxInt" using assms(1) unfolding maxInt_def by linarith
  qed
  have p2: "wrap64 ((pageNum - 1) * pageSize) = (pageNum - 1) * pageSize"
  proof (rule wrap64_id)
    show "minInt \<le> (pageNum - 1) * pageSize" by (rule assms(3))
    show "(pageNum - 1) * pageSize \<le> maxInt"
      using low assms(1) unfolding maxInt_def by linarith
  qed
  have p3: "wrap64 ((pageNum - 1) * pageSize + pageSize) = pageNum * pageSize"
  proof -
    have "minInt \<le> pageNum * pageSize" using assms split by linarith
    moreover have "pageNum * pageSize \<le> maxInt" using npos unfolding maxInt_def by linarith
    ultimately show ?thesis using split by (simp add: wrap64_id)
  qed
  have neg: "(pageNum - 1) * pageSize < 0" using low assms(1) by linarith
  have "\<not> (pageNum - 1) * pageSize > int (length movies)" using neg by linarith
  moreover have "\<not> pageNum * pageSize > int (length movies)" using npos by linarith
  ultimately show ?thesis
    by (simp add: slice_bounds_def Let_def p1 p2 p3)
qed

text \<open>
  X5. For a page number and a page size of at least 1 whose product fits a 64-bit
  \<^verbatim>\<open>int\<close>, the bounds satisfy \<open>0 \<le> start \<le> end \<le> len(movies)\<close> and the paginator
  returns. For a page number of at most 0 and a page size of at least 1 whose
  offset \<open>(pageNum - 1) * pageSize\<close> does not wrap, the lower bound is negative and
  the slice expression panics; and the router passes such a page number to the
  paginator whenever it parses one, before it compares the page number with the
  total. Nothing is said of the page numbers whose offset wraps.
\<close>

theorem slice_bounds_without_overflow:
  "(1 \<le> pageNum \<and> 1 \<le> pageSize \<and> pageNum * pageSize \<le> maxInt \<longrightarrow>
      0 \<le> fst (slice_bounds movies pageNum pageSize)
      \<and> fst (slice_bounds movies pageNum pageSize) \<le> snd (slice_bounds movies pageNum pageSize)
      \<and> snd (slice_bounds movies pageNum pageSize) \<le> int (length movies)
      \<and> (\<exists>pagedMovies. paginateMovies movies pageNum pageSize =
             Inr (pagedMovies, total_pages (length movies) pageSize)))
   \<and> (q \<le> 0 \<and> 1 \<le> pageSize \<and> minInt \<le> (q - 1) * pageSize \<longrightarrow>
      fst (slice_bounds movies q pageSize) < 0
      \<and> paginateMovies movies q pageSize =
          Inl (SliceBoundsOutOfRange ((q - 1) * pageSize) (q * pageSize)))
   \<and> (NewSession p = None \<and> Scan svc (TABLE_NAME p) (db w) = (Inr items, s')
       \<and> movies_of_items items [] = Some unsorted
       \<and> Atoi (page_param req) = Some q \<and> q \<le> 0 \<and> minInt \<le> (q - 1) * 3 \<longrightarrow>
      fst (findAllMovies p svc req w) = Inl (SliceBoundsOutOfRange ((q - 1) * 3) (q * 3)))"
proof (intro conjI impI)
  assume a: "1 \<le> pageNum \<and> 1 \<le> pageSize \<and> pageNum * pageSize \<le> maxInt"
  then have b: "slice_bounds movies pageNum pageSize =
      (min ((pageNum - 1) * pageSize) (int (length movies)),
       min (pageNum * pageSize) (int (length movies)))"
    by (intro slice_bounds_in_range) auto
  have nonneg: "0 \<le> (pageNum - 1) * pageSize" using a by simp
  have "(pageNum - 1) * pageSize = pageNum * pageSize - pageSize" by (simp add: algebra_simps)
  then have le: "(pageNum - 1) * pageSize \<le> pageNum * pageSize" using a by linarith
  show "0 \<le> fst (slice_bounds movies pageNum pageSize)"
    using nonneg by (simp add: b)
  have mono: "min x n \<le> min y n" if "x \<le> y" for x y n :: int
    using that by linarith
  show "fst (slice_bounds movies pageNum pageSize) \<le> snd (slice_bounds movies pageNum pageSize)"
    unfolding b fst_conv snd_conv using le by (rule mono)
  show "snd (slice_bounds movies pageNum pageSize) \<le> int (length movies)"
    by (simp add: b)
  show "\<exists>pagedMovies. paginateMovies movies pageNum pageSize =
             Inr (pagedMovies, total_pages (length movies) pageSize)"
  proof -
    have "pageSize \<noteq> 0" using a by linarith
    moreover have "0 \<le> min ((pageNum - 1) * pageSize) (int (length movies))"
      using nonneg by linarith
    moreover have "min (pageNum * pageSize) (int (length movies)) \<le> int (length movies)"
      by linarith
    ultimately show ?thesis
      using mono [OF le, of "int (length movies)"]
      unfolding paginateMovies_def b go_slice_def by simp
  qed
next
  assume a: "q \<le> 0 \<and> 1 \<le> pageSize \<and> minInt \<le> (q - 1) * pageSize"
  then have b: "slice_bounds movies q pageSize = ((q - 1) * pageSize, q * pageSize)"
    by (intro slice_bounds_nonpositive_page) auto
  have "(q - 1) * pageSize \<le> (q - 1) * 1"
    using a by (intro mult_left_mono_neg) auto
  then have "(q - 1) * pageSize \<le> q - 1" by simp
  then have neg: "(q - 1) * pageSize < 0" using a by linarith
  show "fst (slice_bounds movies q pageSize) < 0" using neg by (simp add: b)
  show "paginateMovies movies q pageSize =
          Inl (SliceBoundsOutOfRange ((q - 1) * pageSize) (q * pageSize))"
    using a neg unfolding paginateMovies_def b go_slice_def by simp
next
  assume a: "NewSession p = None \<and> Scan svc (TABLE_NAME p) (db w) = (Inr items, s')
       \<and> movies_of_items items [] = Some unsorted
       \<and> Atoi (page_param req) = Some q \<and> q \<le> 0 \<and> minInt \<le> (q - 1) * 3"
  then have b: "slice_bounds (sort_key ID unsorted) q 3 = ((q - 1) * 3, q * 3)"
    by (intro slice_bounds_nonpositive_page) auto
  have "paginateMovies (sort_key ID unsorted) q 3 =
          Inl (SliceBoundsOutOfRange ((q - 1) * 3) (q * 3))"
    using a unfolding paginateMovies_def b go_slice_def by simp
  then show "fst (findAllMovies p svc req w) = Inl (SliceBoundsOutOfRange ((q - 1) * 3) (q * 3))"
    using a by (simp add: findAllMovies_def call_def)
qed

theorem slice_bounds_without_overflow_witness:
  "(1 :: int) \<le> 2 \<and> (1 :: int) \<le> 3 \<and> (2 :: int) * 3 \<le> maxInt
   \<and> slice_bounds [\<lparr>ID = ''m1'', Name = ''Alpha''\<rparr>, \<lparr>ID = ''m2'', Name = ''Bravo''\<rparr>,
                    \<lparr>ID = ''m3'', Name = ''Charlie''\<rparr>, \<lparr>ID = ''m4'', Name = ''Delta''\<rparr>] 2 3 = (3, 4)
   \<and> (0 :: int) \<le> 0 \<and> minInt \<le> (0 - 1) * 3
   \<and> paginateMovies [\<lparr>ID = ''m1'', Name = ''Alpha''\<rparr>, \<lparr>ID = ''m2'', Name = ''Bravo''\<rparr>,
                    \<lparr>ID = ''m3'', Name = ''Charlie''\<rparr>, \<lparr>ID = ''m4'', Name = ''Delta''\<rparr>] 0 3
       = Inl (SliceBoundsOutOfRange (- 3) 0)
   \<and> Atoi (page_param (get Map.empty [''page'' \<mapsto> ''0''])) = Some 0
   \<and> fst (findAllMovies example_process table_client (get Map.empty [''page'' \<mapsto> ''0''])
            (fresh [row ''m1'' ''Alpha'']))
       = Inl (SliceBoundsOutOfRange (- 3) 0)"
proof -
  have scan: "Scan table_client (TABLE_NAME example_process) (db (fresh [row ''m1'' ''Alpha'']))
      = (Inr [row ''m1'' ''Alpha''], \<lparr>rows = [row ''m1'' ''Alpha''], failure = None\<rparr>)"
    by (simp add: example_defs)
  have items: "movies_of_items [row ''m1'' ''Alpha''] [] = Some [\<lparr>ID = ''m1'', Name = ''Alpha''\<rparr>]"
    by (simp add: example_defs)
  have page: "Atoi (page_param (get Map.empty [''page'' \<mapsto> ''0''])) = Some 0"
    by (simp add: example_defs atoi_defs)
  have session: "NewSession example_process = None"
    by (simp add: example_defs)
  show ?thesis
    using slice_bounds_without_overflow
      [of 2 3 "[\<lparr>ID = ''m1'', Name = ''Alpha''\<rparr>, \<lparr>ID = ''m2'', Name = ''Bravo''\<rparr>,
                \<lparr>ID = ''m3'', Name = ''Charlie''\<rparr>, \<lparr>ID = ''m4'', Name = ''Delta''\<rparr>]"
          0 example_process table_client "fresh [row ''m1'' ''Alpha'']"
          "[row ''m1'' ''Alpha'']" "\<lparr>rows = [row ''m1'' ''Alpha''], failure = None\<rparr>"
          "[\<lparr>ID = ''m1'', Name = ''Alpha''\<rparr>]" "get Map.empty [''page'' \<mapsto> ''0'']"]
      scan items page session
    by (simp add: minInt_def maxInt_def slice_bounds_def wrap64_def)
qed

text \<open>
  C10. The paginator on page \<open>2 ^ 62 + 1\<close>, which \<^verbatim>\<open>strconv.Atoi\<close> accepts, with page
  size 3: the page number and the page size are at least 1, yet the offset
  \<open>2 ^ 62 * 3\<close> wraps to \<open>- 2 ^ 62\<close>, neither clamp touches it, and the slice
  expression is out of range and panics; the router reaches it with that page.
\<close>

theorem paginateMovies_offset_wraps:
  "Atoi ''4611686018427387905'' = Some 4611686018427387905
   \<and> slice_bounds ([] :: Movie list) 4611686018427387905 3
       = (- 4611686018427387904, - 4611686018427387901)
   \<and> paginateMovies [] 4611686018427387905 3
       = Inl (SliceBoundsOutOfRange (- 4611686018427387904) (- 4611686018427387901))
   \<and> slice_bounds [\<lparr>ID = ''m1'', Name = ''Alpha''\<rparr>] 4611686018427387905 3
       = (- 4611686018427387904, - 4611686018427387901)
   \<and> findAllMovies example_process table_client
        (get Map.empty [''page'' \<mapsto> ''4611686018427387905'']) (fresh [row ''m1'' ''Alpha''])
      = (Inl (SliceBoundsOutOfRange (- 4611686018427387904) (- 4611686018427387901)),
         \<lparr>db = \<lparr>rows = [row ''m1'' ''Alpha''], failure = None\<rparr>, calls = [ScanCall ''movies'']\<rparr>)"
  by (simp add: findAllMovies_def example_defs paginate_defs atoi_defs)

section \<open>The dispatch\<close>

text \<open>
  C2, as amended. A GET whose \<^verbatim>\<open>id\<close> path parameter is missing or empty runs the
  list operation, a GET with a non-empty \<^verbatim>\<open>id\<close> the get-one operation, a POST the
  create operation, a PUT the update operation and a DELETE the delete operation;
  any other method is answered 405 with an error envelope, in the world the request
  came in (no call to the client).
\<close>

theorem handleRequest_dispatch:
  "(HTTPMethod req = ''GET''
      \<and> (PathParameters req ''id'' = None \<or> PathParameters req ''id'' = Some []) \<longrightarrow>
        handleRequest p svc req w = findAllMovies p svc req w)
   \<and> (HTTPMethod req = ''GET'' \<and> PathParameters req ''id'' = Some v \<and> v \<noteq> [] \<longrightarrow>
        handleRequest p svc req w = findOneMovie p svc req w)
   \<and> (HTTPMethod req = ''POST'' \<longrightarrow> handleRequest p svc req w = insertMovie p svc req w)
   \<and> (HTTPMethod req = ''PUT'' \<longrightarrow> handleRequest p svc req w = updateMovie p svc req w)
   \<and> (HTTPMethod req = ''DELETE'' \<longrightarrow> handleRequest p svc req w = deleteMovie p svc req w)
   \<and> (HTTPMethod req \<noteq> ''GET'' \<and> HTTPMethod req \<noteq> ''POST'' \<and> HTTPMethod req \<noteq> ''PUT''
       \<and> HTTPMethod req \<noteq> ''DELETE'' \<longrightarrow>
        handleRequest p svc req w =
          (Inr \<lparr>StatusCode = 405, Headers = [''Content-Type'' \<mapsto> ''application/json''],
                Body = jsonErrorResponse p ''Unsupported HTTP method''\<rparr>, w))"
  by (auto simp add: handleRequest_def index_def json_headers_def)

theorem handleRequest_dispatch_witness:
  \<open>calls (snd (handleRequest example_process table_client (get Map.empty Map.empty)
       (fresh [row ''m1'' ''Alpha'']))) = [ScanCall ''movies'']
   \<and> calls (snd (handleRequest example_process table_client (get [''id'' \<mapsto> ''m1''] Map.empty)
       (fresh [row ''m1'' ''Alpha'']))) = [GetItemCall ''movies'' ''m1'']
   \<and> calls (snd (handleRequest example_process table_client
       (send ''POST'' ''{"id":"m1","name":"Alpha"}'') (fresh []))) = [PutItemCall ''movies'' ''m1'' ''Alpha'']
   \<and> calls (snd (handleRequest example_process table_client
       (send ''PUT'' ''{"id":"m1","name":"Alpha"}'') (fresh []))) = [UpdateItemCall ''movies'' ''m1'' ''Alpha'']
   \<and> calls (snd (handleRequest example_process table_client
       (send ''DELETE'' ''{"id":"m1","name":"Alpha"}'') (fresh []))) = [DeleteItemCall ''movies'' ''m1'']
   \<and> handleRequest example_process table_client (send ''PATCH'' ''{"id":"m1","name":"Alpha"}'')
       (fresh [])
      = (Inr \<lparr>StatusCode = 405, Headers = [''Content-Type'' \<mapsto> ''application/json''],
              Body = ''{"success":false,"message":"Unsupported HTTP method"}''\<rparr>, fresh [])\<close>
proof -
  note d = handleRequest_dispatch [where p = example_process and svc = table_client]
  have 1: "handleRequest example_process table_client (get Map.empty Map.empty)
             (fresh [row ''m1'' ''Alpha''])
           = findAllMovies example_process table_client (get Map.empty Map.empty)
             (fresh [row ''m1'' ''Alpha''])"
    using d [where req = "get Map.empty Map.empty"] by (simp add: get_def)
  have 2: "handleRequest example_process table_client (get [''id'' \<mapsto> ''m1''] Map.empty)
             (fresh [row ''m1'' ''Alpha''])
           = findOneMovie example_process table_client (get [''id'' \<mapsto> ''m1''] Map.empty)
             (fresh [row ''m1'' ''Alpha''])"
    using d [where req = "get [''id'' \<mapsto> ''m1''] Map.empty" and v = "''m1''"] by (simp add: get_def)
  have 3: "handleRequest example_process table_client (send ''POST'' b) (fresh [])
           = insertMovie example_process table_client (send ''POST'' b) (fresh [])" for b
    using d [where req = "send ''POST'' b"] by (simp add: send_def)
  have 4: "handleRequest example_process table_client (send ''PUT'' b) (fresh [])
           = updateMovie example_process table_client (send ''PUT'' b) (fresh [])" for b
    using d [where req = "send ''PUT'' b"] by (simp add: send_def)
  have 5: "handleRequest example_process table_client (send ''DELETE'' b) (fresh [])
           = deleteMovie example_process table_client (send ''DELETE'' b) (fresh [])" for b
    using d [where req = "send ''DELETE'' b"] by (simp add: send_def)
  have 6: "handleRequest example_process table_client (send ''PATCH'' b) (fresh [])
           = (Inr \<lparr>StatusCode = 405, Headers = [''Content-Type'' \<mapsto> ''application/json''],
                   Body = jsonErrorResponse example_process ''Unsupported HTTP method''\<rparr>, fresh [])" for b
    using d [where req = "send ''PATCH'' b"] by (simp add: send_def)
  show ?thesis
    unfolding 1 2 3 4 5 6
    by (simp add: findAllMovies_def findOneMovie_def insertMovie_def updateMovie_def
        deleteMovie_def example_defs paginate_defs atoi_defs)
qed

text \<open>
  C2 as stated fails on a GET that carries an \<^verbatim>\<open>id\<close> path parameter whose value is the
  empty string: the parameter is present, and the router scans the table (the list
  operation) where the get-one operation would have asked for the item.
\<close>

theorem handleRequest_empty_id_counterexample:
  "PathParameters (get [''id'' \<mapsto> []] Map.empty) ''id'' = Some []
   \<and> HTTPMethod (get [''id'' \<mapsto> []] Map.empty) = ''GET''
   \<and> calls (snd (handleRequest example_process table_client (get [''id'' \<mapsto> []] Map.empty)
        (fresh [row ''m1'' ''Alpha'']))) = [ScanCall ''movies'']
   \<and> calls (snd (findOneMovie example_process table_client (get [''id'' \<mapsto> []] Map.empty)
        (fresh [row ''m1'' ''Alpha'']))) = [GetItemCall ''movies'' []]
   \<and> handleRequest example_process table_client (get [''id'' \<mapsto> []] Map.empty)
        (fresh [row ''m1'' ''Alpha''])
      \<noteq> findOneMovie example_process table_client (get [''id'' \<mapsto> []] Map.empty)
        (fresh [row ''m1'' ''Alpha''])"
  by (simp add: handleRequest_def findAllMovies_def findOneMovie_def example_defs
      paginate_defs atoi_defs)

section \<open>The create operation\<close>



section \<open>The list operation\<close>




text \<open>What the list operation does once the page number is parsed.\<close>

lemma findAllMovies_scanned:
  assumes "NewSession p = None"
    and "Scan svc (TABLE_NAME p) (db w) = (Inr items, s')"
    and "movies_of_items items [] = Some unsorted"
    and "Atoi (page_param req) = Some pageNum"
  shows "findAllMovies p svc req w =
     (case paginateMovies (sort_key ID unsorted) pageNum 3 of
        Inl pn \<Rightarrow> (Inl pn, \<lparr>db = s', calls = calls w @ [ScanCall (TABLE_NAME p)]\<rparr>)
      | Inr (paginated, totalPages) \<Rightarrow>
          if pageNum > totalPages
          then (Inr \<lparr>StatusCode = 400, Headers = json_headers,
                     Body = jsonErrorResponse p
                       ''The requested page exceeds the total of pages''\<rparr>,
                \<lparr>db = s', calls = calls w @ [ScanCall (TABLE_NAME p)]\<rparr>)
          else (Inr \<lparr>StatusCode = 200, Headers = json_headers,
                     Body = Marshal_PaginatedMovie p
                       \<lparr>Movie = paginated, ActualPage = pageNum, TotalPages = totalPages\<rparr>\<rparr>,
                \<lparr>db = s', calls = calls w @ [ScanCall (TABLE_NAME p)]\<rparr>))"
  using assms by (simp add: findAllMovies_def call_def)

text \<open>
  X1. For a page number of at least 1 whose triple fits a 64-bit \<^verbatim>\<open>int\<close>, the list
  operation answers 400 with the error envelope of message
  \<^verbatim>\<open>The requested page exceeds the total of pages\<close> when the page number exceeds the
  ceiling of a third of the size of the collection, and otherwise 200 with
  \<^verbatim>\<open>data\<close> the part of the collection, sorted by key, from offset
  \<open>(pageNum - 1) * 3\<close> to \<open>pageNum * 3\<close>, \<^verbatim>\<open>actual_page\<close> the page number and
  \<^verbatim>\<open>total_pages\<close> that ceiling.
\<close>

theorem findAllMovies_in_range:
  assumes "NewSession p = None"
    and "Scan svc (TABLE_NAME p) (db w) = (Inr items, s')"
    and "movies_of_items items [] = Some unsorted"
    and "Atoi (page_param req) = Some pageNum"
    and "1 \<le> pageNum" and "pageNum * 3 \<le> maxInt"
  shows "findAllMovies p svc req w =
     (if pageNum > \<lceil>real (length unsorted) / 3\<rceil>
      then (Inr \<lparr>StatusCode = 400, Headers = [''Content-Type'' \<mapsto> ''application/json''],
                 Body = jsonErrorResponse p ''The requested page exceeds the total of pages''\<rparr>,
            \<lparr>db = s', calls = calls w @ [ScanCall (TABLE_NAME p)]\<rparr>)
      else (Inr \<lparr>StatusCode = 200, Headers = [''Content-Type'' \<mapsto> ''application/json''],
                 Body = Marshal_PaginatedMovie p
                   \<lparr>Movie = drop (nat (pageNum - 1) * 3)
                              (take (nat pageNum * 3) (sort_key ID unsorted)),
                    ActualPage = pageNum,
                    TotalPages = \<lceil>real (length unsorted) / 3\<rceil>\<rparr>\<rparr>,
            \<lparr>db = s', calls = calls w @ [ScanCall (TABLE_NAME p)]\<rparr>))"
proof -
  have "paginateMovies (sort_key ID unsorted) pageNum 3 =
          Inr (drop (nat (pageNum - 1) * 3) (take (nat pageNum * 3) (sort_key ID unsorted)),
               total_pages (length (sort_key ID unsorted)) 3)"
    using assms(5,6) by (rule paginateMovies_in_range)
  moreover have "total_pages (length (sort_key ID unsorted)) 3 = \<lceil>real (length unsorted) / 3\<rceil>"
    by (simp add: total_pages_def)
  ultimately show ?thesis
    using findAllMovies_scanned [OF assms(1-4)] by (simp add: json_headers_def)
qed

theorem findAllMovies_in_range_witness:
  \<open>Atoi (page_param (get Map.empty [''page'' \<mapsto> ''10''])) = Some 10
   \<and> (1 :: int) \<le> 10 \<and> (10 :: int) * 3 \<le> maxInt
   \<and> findAllMovies example_process table_client (get Map.empty [''page'' \<mapsto> ''10''])
        (fresh [row ''m4'' ''Delta'', row ''m2'' ''Bravo'', row ''m1'' ''Alpha'', row ''m3'' ''Charlie''])
      = (Inr \<lparr>StatusCode = 400, Headers = [''Content-Type'' \<mapsto> ''application/json''],
              Body = ''{"success":false,"message":"The requested page exceeds the total of pages"}''\<rparr>,
         \<lparr>db = \<lparr>rows = [row ''m4'' ''Delta'', row ''m2'' ''Bravo'', row ''m1'' ''Alpha'',
                          row ''m3'' ''Charlie''], failure = None\<rparr>,
          calls = [ScanCall ''movies'']\<rparr>)
   \<and> Atoi (page_param (get Map.empty [''page'' \<mapsto> ''2''])) = Some 2
   \<and> fst (findAllMovies example_process table_client (get Map.empty [''page'' \<mapsto> ''2''])
        (fresh [row ''m4'' ''Delta'', row ''m2'' ''Bravo'', row ''m1'' ''Alpha'', row ''m3'' ''Charlie'']))
      = Inr \<lparr>StatusCode = 200, Headers = [''Content-Type'' \<mapsto> ''application/json''],
              Body = ''{"data":[{"id":"m4","name":"Delta"}],"actual_page":2,"total_pages":2}''\<rparr>\<close>
proof -
  let ?rows = "[row ''m4'' ''Delta'', row ''m2'' ''Bravo'', row ''m1'' ''Alpha'', row ''m3'' ''Charlie'']"
  let ?movies = "[\<lparr>ID = ''m4'', Name = ''Delta''\<rparr>, \<lparr>ID = ''m2'', Name = ''Bravo''\<rparr>,
                  \<lparr>ID = ''m1'', Name = ''Alpha''\<rparr>, \<lparr>ID = ''m3'', Name = ''Charlie''\<rparr>]"
  have session: "NewSession example_process = None"
    by (simp add: example_defs)
  have scan: "Scan table_client (TABLE_NAME example_process) (db (fresh ?rows))
      = (Inr ?rows, \<lparr>rows = ?rows, failure = None\<rparr>)"
    by (simp add: example_defs)
  have items: "movies_of_items ?rows [] = Some ?movies"
    by (simp add: example_defs)
  have ten: "Atoi (page_param (get Map.empty [''page'' \<mapsto> ''10''])) = Some 10"
    by (simp add: example_defs atoi_defs)
  have two: "Atoi (page_param (get Map.empty [''page'' \<mapsto> ''2''])) = Some 2"
    by (simp add: example_defs atoi_defs)
  have ceil: "\<lceil>(4 :: real) / 3\<rceil> = 2" by simp
  have sorted: "sort_key ID ?movies = [\<lparr>ID = ''m1'', Name = ''Alpha''\<rparr>, \<lparr>ID = ''m2'', Name = ''Bravo''\<rparr>,
                  \<lparr>ID = ''m3'', Name = ''Charlie''\<rparr>, \<lparr>ID = ''m4'', Name = ''Delta''\<rparr>]"
    by simp
  show ?thesis
    using ten two
      findAllMovies_in_range [OF session scan items ten]
      findAllMovies_in_range [OF session scan items two]
    by (simp add: maxInt_def ceil sorted example_defs)
qed

text \<open>
  C4. The list operation on page 0 of a table of two movies: the page number does
  not exceed the total, which is 1, yet the answer is not 200 but a panic, the
  slice expression of the paginator being out of range. On page \<open>2 ^ 62 + 1\<close>,
  which exceeds the total, the answer is not 400 but the same panic, the offset
  having wrapped around.
\<close>

theorem findAllMovies_page_zero_panics:
  "Atoi ''0'' = Some 0
   \<and> paginateMovies [\<lparr>ID = ''m1'', Name = ''Alpha''\<rparr>, \<lparr>ID = ''m2'', Name = ''Bravo''\<rparr>] 0 3
       = Inl (SliceBoundsOutOfRange (- 3) 0)
   \<and> total_pages 2 3 = 1
   \<and> handleRequest example_process table_client (get Map.empty [''page'' \<mapsto> ''0''])
        (fresh [row ''m2'' ''Bravo'', row ''m1'' ''Alpha''])
      = (Inl (SliceBoundsOutOfRange (- 3) 0),
         \<lparr>db = \<lparr>rows = [row ''m2'' ''Bravo'', row ''m1'' ''Alpha''], failure = None\<rparr>,
          calls = [ScanCall ''movies'']\<rparr>)
   \<and> Atoi ''4611686018427387905'' = Some 4611686018427387905
   \<and> fst (handleRequest example_process table_client
        (get Map.empty [''page'' \<mapsto> ''4611686018427387905''])
        (fresh [row ''m2'' ''Bravo'', row ''m1'' ''Alpha'']))
      = Inl (SliceBoundsOutOfRange (- 4611686018427387904) (- 4611686018427387901))"
  by (simp add: handleRequest_def findAllMovies_def example_defs paginate_defs atoi_defs)

section \<open>The get-one operation\<close>

text \<open>
  X2. The router's get-one operation, when the client returns an item: 404 with
  the error envelope of message \<^verbatim>\<open>Movie not found with the ID provided\<close> for an
  empty item, 200 with the movie as JSON for an item with its two string
  attributes.
\<close>

theorem findOneMovie_missing_or_found:
  assumes "NewSession p = None"
    and "GetItem svc (TABLE_NAME p) (index (PathParameters req) ''id'') (db w) = (Inr it, s')"
  shows "(it = Map.empty \<longrightarrow>
            findOneMovie p svc req w =
              (Inr \<lparr>StatusCode = 404, Headers = [''Content-Type'' \<mapsto> ''application/json''],
                    Body = jsonErrorResponse p ''Movie not found with the ID provided''\<rparr>,
               \<lparr>db = s', calls = calls w
                   @ [GetItemCall (TABLE_NAME p) (index (PathParameters req) ''id'')]\<rparr>))
         \<and> (it ''ID'' = Some \<lparr>S = Some i\<rparr> \<and> it ''Name'' = Some \<lparr>S = Some n\<rparr> \<longrightarrow>
            findOneMovie p svc req w =
              (Inr \<lparr>StatusCode = 200, Headers = [''Content-Type'' \<mapsto> ''application/json''],
                    Body = Marshal_Movie p \<lparr>ID = i, Name = n\<rparr>\<rparr>,
               \<lparr>db = s', calls = calls w
                   @ [GetItemCall (TABLE_NAME p) (index (PathParameters req) ''id'')]\<rparr>))"
proof (intro conjI impI)
  assume "it = Map.empty"
  then show "findOneMovie p svc req w =
      (Inr \<lparr>StatusCode = 404, Headers = [''Content-Type'' \<mapsto> ''application/json''],
            Body = jsonErrorResponse p ''Movie not found with the ID provided''\<rparr>,
       \<lparr>db = s', calls = calls w
           @ [GetItemCall (TABLE_NAME p) (index (PathParameters req) ''id'')]\<rparr>)"
    using assms by (simp add: findOneMovie_def call_def json_headers_def)
next
  assume attrs: "it ''ID'' = Some \<lparr>S = Some i\<rparr> \<and> it ''Name'' = Some \<lparr>S = Some n\<rparr>"
  then have "it ''ID'' \<noteq> None" by simp
  then have nonempty: "it \<noteq> Map.empty" by auto
  have "movie_of_item it = Some \<lparr>ID = i, Name = n\<rparr>"
    using attrs by (simp add: movie_of_item_def deref_S_def)
  then show "findOneMovie p svc req w =
      (Inr \<lparr>StatusCode = 200, Headers = [''Content-Type'' \<mapsto> ''application/json''],
            Body = Marshal_Movie p \<lparr>ID = i, Name = n\<rparr>\<rparr>,
       \<lparr>db = s', calls = calls w
           @ [GetItemCall (TABLE_NAME p) (index (PathParameters req) ''id'')]\<rparr>)"
    using assms nonempty by (simp add: findOneMovie_def call_def json_headers_def)
qed

theorem findOneMovie_missing_or_found_witness:
  \<open>findOneMovie example_process table_client (get [''id'' \<mapsto> ''missing''] Map.empty)
       (fresh [row ''m1'' ''Alpha''])
     = (Inr \<lparr>StatusCode = 404, Headers = [''Content-Type'' \<mapsto> ''application/json''],
             Body = ''{"success":false,"message":"Movie not found with the ID provided"}''\<rparr>,
        \<lparr>db = \<lparr>rows = [row ''m1'' ''Alpha''], failure = None\<rparr>,
         calls = [GetItemCall ''movies'' ''missing'']\<rparr>)
   \<and> findOneMovie example_process table_client (get [''id'' \<mapsto> ''m1''] Map.empty)
       (fresh [row ''m1'' ''Alpha''])
     = (Inr \<lparr>StatusCode = 200, Headers = [''Content-Type'' \<mapsto> ''application/json''],
             Body = ''{"id":"m1","name":"Alpha"}''\<rparr>,
        \<lparr>db = \<lparr>rows = [row ''m1'' ''Alpha''], failure = None\<rparr>,
         calls = [GetItemCall ''movies'' ''m1'']\<rparr>)\<close>
proof -
  have session: "NewSession example_process = None"
    by (simp add: example_defs)
  have missing: "GetItem table_client (TABLE_NAME example_process)
        (index (PathParameters (get [''id'' \<mapsto> ''missing''] Map.empty)) ''id'')
        (db (fresh [row ''m1'' ''Alpha'']))
      = (Inr Map.empty, \<lparr>rows = [row ''m1'' ''Alpha''], failure = None\<rparr>)"
    by (simp add: example_defs)
  have found: "GetItem table_client (TABLE_NAME example_process)
        (index (PathParameters (get [''id'' \<mapsto> ''m1''] Map.empty)) ''id'')
        (db (fresh [row ''m1'' ''Alpha'']))
      = (Inr (row ''m1'' ''Alpha''), \<lparr>rows = [row ''m1'' ''Alpha''], failure = None\<rparr>)"
    by (simp add: example_defs)
  show ?thesis
    using findOneMovie_missing_or_found [OF session missing]
      findOneMovie_missing_or_found [OF session found, of "''m1''" "''Alpha''"]
    by (simp add: example_defs)
qed

text \<open>
  C3. The single-operation handler \<^verbatim>\<open>findOne\<close> on a key the table does not hold: it
  dereferences the attributes of the empty item and panics, where the router's
  get-one operation answers 404.
\<close>

theorem findOne_missing_item_panics:
  "findOne example_process table_client (get [''id'' \<mapsto> ''missing''] Map.empty)
       (fresh [row ''m1'' ''Alpha''])
     = (Inl NilPointerDereference,
        \<lparr>db = \<lparr>rows = [row ''m1'' ''Alpha''], failure = None\<rparr>,
         calls = [GetItemCall ''movies'' ''missing'']\<rparr>)
   \<and> StatusCode (projr (fst (findOneMovie example_process table_client
         (get [''id'' \<mapsto> ''missing''] Map.empty) (fresh [row ''m1'' ''Alpha''])))) = 404"
  by (simp add: findOne_def findOneMovie_def example_defs)

section \<open>Failures of the client\<close>

text \<open>
  X3. When the call to the client fails, each of the five operations of the router
  answers 500 with an error envelope whose message is a constant of the operation:
  the text of the client's error \<open>err\<close> is not in the response.
\<close>

theorem router_backend_failure:
  assumes "NewSession p = None"
  shows "(Scan svc (TABLE_NAME p) (db w) = (Inl err, s') \<longrightarrow>
            findAllMovies p svc req w =
              (Inr \<lparr>StatusCode = 500, Headers = [''Content-Type'' \<mapsto> ''application/json''],
                    Body = jsonErrorResponse p ''Error while scanning DynamoDB''\<rparr>,
               \<lparr>db = s', calls = calls w @ [ScanCall (TABLE_NAME p)]\<rparr>))
         \<and> (GetItem svc (TABLE_NAME p) (index (PathParameters req) ''id'') (db w) = (Inl err, s') \<longrightarrow>
            findOneMovie p svc req w =
              (Inr \<lparr>StatusCode = 500, Headers = [''Content-Type'' \<mapsto> ''application/json''],
                    Body = jsonErrorResponse p ''Error while getting item DynamoDB''\<rparr>,
               \<lparr>db = s', calls = calls w
                  @ [GetItemCall (TABLE_NAME p) (index (PathParameters req) ''id'')]\<rparr>))
         \<and> (Unmarshal p (RequestBody req) = Inr movie
             \<and> PutItem svc (TABLE_NAME p) (ID movie) (Name movie) (db w) = (Inl err, s') \<longrightarrow>
            insertMovie p svc req w =
              (Inr \<lparr>StatusCode = 500, Headers = [''Content-Type'' \<mapsto> ''application/json''],
                    Body = jsonErrorResponse p ''Error inserting movie into DynamoDB''\<rparr>,
               \<lparr>db = s', calls = calls w
                  @ [PutItemCall (TABLE_NAME p) (ID movie) (Name movie)]\<rparr>))
         \<and> (Unmarshal p (RequestBody req) = Inr movie
             \<and> UpdateItem svc (TABLE_NAME p) (ID movie) (Name movie) (db w) = (Inl err, s') \<longrightarrow>
            updateMovie p svc req w =
              (Inr \<lparr>StatusCode = 500, Headers = [''Content-Type'' \<mapsto> ''application/json''],
                    Body = jsonErrorResponse p ''Error updating movie from DynamoDB''\<rparr>,
               \<lparr>db = s', calls = calls w
                  @ [UpdateItemCall (TABLE_NAME p) (ID movie) (Name movie)]\<rparr>))
         \<and> (Unmarshal p (RequestBody req) = Inr movie
             \<and> DeleteItem svc (TABLE_NAME p) (ID movie) (db w) = (Inl err, s') \<longrightarrow>
            deleteMovie p svc req w =
              (Inr \<lparr>StatusCode = 500, Headers = [''Content-Type'' \<mapsto> ''application/json''],
                    Body = jsonErrorResponse p ''Error deleting movie into DynamoDB''\<rparr>,
               \<lparr>db = s', calls = calls w @ [DeleteItemCall (TABLE_NAME p) (ID movie)]\<rparr>))"
  using assms
  by (simp add: findAllMovies_def findOneMovie_def insertMovie_def updateMovie_def
      deleteMovie_def call_def json_headers_def)

theorem router_backend_failure_witness:
  \<open>NewSession example_process = None
   \<and> findAllMovies example_process table_client (get Map.empty Map.empty)
        (broken ''ResourceNotFoundException: Requested resource not found'')
      = (Inr \<lparr>StatusCode = 500, Headers = [''Content-Type'' \<mapsto> ''application/json''],
              Body = ''{"success":false,"message":"Error while scanning DynamoDB"}''\<rparr>,
         \<lparr>db = \<lparr>rows = [], failure = Some ''ResourceNotFoundException: Requested resource not found''\<rparr>,
          calls = [ScanCall ''movies'']\<rparr>)
   \<and> fst (updateMovie example_process table_client (send ''PUT'' ''{"id":"m1","name":"Alpha"}'')
        (broken ''ResourceNotFoundException: Requested resource not found''))
      = Inr \<lparr>StatusCode = 500, Headers = [''Content-Type'' \<mapsto> ''application/json''],
              Body = ''{"success":false,"message":"Error updating movie from DynamoDB"}''\<rparr>\<close>
proof -
  let ?e = "''ResourceNotFoundException: Requested resource not found''"
  have session: "NewSession example_process = None"
    by (simp add: example_defs)
  have scan: "Scan table_client (TABLE_NAME example_process) (db (broken ?e))
      = (Inl ?e, \<lparr>rows = [], failure = Some ?e\<rparr>)"
    by (simp add: example_defs)
  have body: \<open>Unmarshal example_process (RequestBody (send ''PUT'' ''{"id":"m1","name":"Alpha"}''))
      = Inr \<lparr>ID = ''m1'', Name = ''Alpha''\<rparr>\<close>
    by (simp add: example_defs)
  have upd: "UpdateItem table_client (TABLE_NAME example_process)
        (ID \<lparr>ID = ''m1'', Name = ''Alpha''\<rparr>) (Name \<lparr>ID = ''m1'', Name = ''Alpha''\<rparr>) (db (broken ?e))
      = (Inl ?e, \<lparr>rows = [], failure = Some ?e\<rparr>)"
    by (simp add: example_defs)
  show ?thesis
    using session
      router_backend_failure [OF session, where svc = table_client and w = "broken ?e"
        and err = ?e and s' = "\<lparr>rows = [], failure = Some ?e\<rparr>"
        and req = "get Map.empty Map.empty"]
      router_backend_failure [OF session, where svc = table_client and w = "broken ?e"
        and err = ?e and s' = "\<lparr>rows = [], failure = Some ?e\<rparr>"
        and req = \<open>send ''PUT'' ''{"id":"m1","name":"Alpha"}''\<close>
        and movie = "\<lparr>ID = ''m1'', Name = ''Alpha''\<rparr>"]
      scan body upd
    by (simp add: example_defs)
qed

text \<open>
  C8. The single-operation handlers \<^verbatim>\<open>update\<close>, \<^verbatim>\<open>delete\<close> and \<^verbatim>\<open>insert\<close> on a
  client that fails: the body of the 500 response ends with the text of the
  client's error, so that two different errors give two different bodies.
\<close>

theorem update_echoes_backend_error:
  \<open>update example_process table_client (send ''PUT'' ''{"id":"m1","name":"Alpha"}'')
       (broken ''ResourceNotFoundException: Requested resource not found'')
     = (Inr \<lparr>StatusCode = 500, Headers = Map.empty,
             Body = ''Error updating movie from DynamoDB: ResourceNotFoundException: Requested resource not found''\<rparr>,
        \<lparr>db = \<lparr>rows = [], failure = Some ''ResourceNotFoundException: Requested resource not found''\<rparr>,
         calls = [UpdateItemCall ''movies'' ''m1'' ''Alpha'']\<rparr>)
   \<and> Body (projr (fst (delete example_process table_client
         (send ''DELETE'' ''{"id":"m1","name":"Alpha"}'')
         (broken ''ResourceNotFoundException: Requested resource not found''))))
     = ''Error deleting movie into DynamoDB: ResourceNotFoundException: Requested resource not found''
   \<and> Body (projr (fst (insert' example_process table_client
         (send ''POST'' ''{"id":"m1","name":"Alpha"}'')
         (broken ''ResourceNotFoundException: Requested resource not found''))))
     = ''Error inserting movie into DynamoDB: ResourceNotFoundException: Requested resource not found''
   \<and> Body (projr (fst (update example_process table_client
         (send ''PUT'' ''{"id":"m1","name":"Alpha"}'') (broken ''ThrottlingException''))))
     \<noteq> Body (projr (fst (update example_process table_client
         (send ''PUT'' ''{"id":"m1","name":"Alpha"}'')
         (broken ''ResourceNotFoundException: Requested resource not found''))))\<close>
  by (simp add: update_def delete_def insert'_def example_defs)

section \<open>The shape of the responses\<close>

text \<open>
  C9. Two runs that do not end in an envelope with the JSON header: the router on
  a list request for page \<open>-2\<close> panics, and the single-operation handler \<^verbatim>\<open>update\<close>
  answers a body that does not parse with plain text and no \<^verbatim>\<open>Content-Type\<close>.
\<close>

theorem handleRequest_unstructured_failure:
  \<open>handleRequest example_process table_client (get Map.empty [''page'' \<mapsto> ''-2'']) (fresh [])
     = (Inl (SliceBoundsOutOfRange (- 9) (- 6)),
        \<lparr>db = \<lparr>rows = [], failure = None\<rparr>, calls = [ScanCall ''movies'']\<rparr>)
   \<and> update example_process table_client (send ''PUT'' ''not-json'') (fresh [])
     = (Inr \<lparr>StatusCode = 400, Headers = Map.empty,
             Body = ''Invalid payload: invalid character 'o' in literal null (expecting 'u')''\<rparr>,
        fresh [])
   \<and> Headers (projr (fst (update example_process table_client (send ''PUT'' ''not-json'')
        (fresh [])))) ''Content-Type'' = None\<close>
  by (simp add: handleRequest_def findAllMovies_def update_def example_defs paginate_defs
      atoi_defs)

text \<open>
  X4. Every response the router returns carries the header
  \<^verbatim>\<open>Content-Type: application/json\<close> and one of the status codes 200, 400, 404, 405
  and 500.
\<close>

theorem handleRequest_responses_are_json:
  assumes "fst (handleRequest p svc req w) = Inr r"
  shows "Headers r = [''Content-Type'' \<mapsto> ''application/json'']
         \<and> (StatusCode r = 200 \<or> StatusCode r = 400 \<or> StatusCode r = 404
            \<or> StatusCode r = 405 \<or> StatusCode r = 500)"
  using assms
  by (auto simp add: handleRequest_def findAllMovies_def findOneMovie_def insertMovie_def
      updateMovie_def deleteMovie_def call_def json_headers_def Let_def
      split: if_splits option.splits sum.splits prod.splits)

theorem handleRequest_responses_are_json_witness:
  \<open>fst (handleRequest example_process table_client (get [''id'' \<mapsto> ''m1''] Map.empty)
          (fresh [row ''m1'' ''Alpha'']))
     = Inr \<lparr>StatusCode = 200, Headers = [''Content-Type'' \<mapsto> ''application/json''],
            Body = ''{"id":"m1","name":"Alpha"}''\<rparr>
   \<and> Headers \<lparr>StatusCode = 200, Headers = [''Content-Type'' \<mapsto> ''application/json''],
            Body = ''{"id":"m1","name":"Alpha"}''\<rparr> ''Content-Type'' = Some ''application/json''\<close>
proof -
  have run: \<open>fst (handleRequest example_process table_client (get [''id'' \<mapsto> ''m1''] Map.empty)
          (fresh [row ''m1'' ''Alpha'']))
     = Inr \<lparr>StatusCode = 200, Headers = [''Content-Type'' \<mapsto> ''application/json''],
            Body = ''{"id":"m1","name":"Alpha"}''\<rparr>\<close>
    by (simp add: handleRequest_def findOneMovie_def example_defs)
  show ?thesis
    using run handleRequest_responses_are_json [OF run] by simp
qed

end
